theory Spec2Isabelle
  imports Main
begin

section \<open>Strings\<close>

text \<open>
  Python strings are modelled as \<^typ>\<open>string\<close>. The string operations below reproduce
  Python's behaviour on ASCII text; a character outside the ASCII range is left as it is
  by \<open>upper\<close> and is neither white space nor a digit.
\<close>

definition truthy :: "string option \<Rightarrow> bool" where
  \<comment> \<open>Python truthiness of an \<open>Optional[str]\<close>: \<open>None\<close> and \<open>""\<close> are false.\<close>
  "truthy v = (case v of None \<Rightarrow> False | Some s \<Rightarrow> s \<noteq> [])"

definition py_str_opt :: "string option \<Rightarrow> string" where
  \<comment> \<open>\<open>str(x)\<close> and \<open>f"{x}"\<close> for an \<open>Optional[str]\<close>\<close>
  "py_str_opt v = (case v of None \<Rightarrow> ''None'' | Some s \<Rightarrow> s)"

definition upper_char :: "char \<Rightarrow> char" where
  "upper_char c =
     (let n = (of_char c :: nat) in if 97 \<le> n \<and> n \<le> 122 then char_of (n - 32) else c)"

definition upper :: "string \<Rightarrow> string" where
  \<comment> \<open>\<open>s.upper()\<close>\<close>
  "upper s = map upper_char s"

definition remove_char :: "char \<Rightarrow> string \<Rightarrow> string" where
  \<comment> \<open>\<open>s.replace(c, "")\<close> for a one-character string \<open>c\<close>\<close>
  "remove_char c s = filter (\<lambda>x. x \<noteq> c) s"

definition is_space :: "char \<Rightarrow> bool" where
  \<comment> \<open>\<open>c.isspace()\<close>, also the class \<open>\s\<close> of \<open>re\<close>: tab to carriage return, the four
      separators 0x1C to 0x1F, and the space\<close>
  "is_space c = (let n = (of_char c :: nat) in (9 \<le> n \<and> n \<le> 13) \<or> (28 \<le> n \<and> n \<le> 32))"

definition is_digit :: "char \<Rightarrow> bool" where
  \<comment> \<open>the class \<open>\d\<close> of \<open>re\<close>\<close>
  "is_digit c = (let n = (of_char c :: nat) in 48 \<le> n \<and> n \<le> 57)"

definition strip :: "string \<Rightarrow> string" where
  \<comment> \<open>\<open>s.strip()\<close>\<close>
  "strip s = rev (dropWhile is_space (rev (dropWhile is_space s)))"

fun startswith :: "string \<Rightarrow> string \<Rightarrow> bool" where
  \<comment> \<open>\<open>s.startswith(p)\<close>\<close>
  "startswith s [] = True"
| "startswith [] (p # ps) = False"
| "startswith (c # cs) (p # ps) = (c = p \<and> startswith cs ps)"

fun isin :: "string \<Rightarrow> string \<Rightarrow> bool" where
  \<comment> \<open>\<open>x in s\<close> for two strings: \<open>x\<close> occurs in \<open>s\<close> as a contiguous substring\<close>
  "isin x [] = (x = [])"
| "isin x (c # cs) = (startswith (c # cs) x \<or> isin x cs)"

definition normalize_text :: "string \<Rightarrow> string" where
  \<comment> \<open>graph.py, line 69, and main.py, line 105:
      \<open>.upper().replace(" ", "").replace("-", "")\<close>\<close>
  "normalize_text s = remove_char CHR ''-'' (remove_char CHR '' '' (upper s))"

definition normalize_lookup :: "string \<Rightarrow> string" where
  \<comment> \<open>utils.py, lines 22 and 25: \<open>.replace('-', '').replace(' ', '').upper()\<close>\<close>
  "normalize_lookup s = upper (remove_char CHR '' '' (remove_char CHR ''-'' s))"

subsection \<open>The order-id pattern\<close>

text \<open>
  \<open>re.search(r"(ORD[-\s]?\d+)", text, re.IGNORECASE)\<close>: the leftmost position at which
  the letters O, R, D (either case), at most one separator and a greedy run of one or more
  digits match. When the separator is taken and no digit follows, the matcher retries
  without it, and fails again since the separator itself is not a digit; so the attempt at
  one position is deterministic.
\<close>

definition is_sep :: "char \<Rightarrow> bool" where
  \<comment> \<open>the class \<open>[-\s]\<close>\<close>
  "is_sep c = (c = CHR ''-'' \<or> is_space c)"

definition match_here :: "string \<Rightarrow> string option" where
  "match_here s =
     (case s of
        a # b # c # rest \<Rightarrow>
          if (a = CHR ''O'' \<or> a = CHR ''o'') \<and> (b = CHR ''R'' \<or> b = CHR ''r'')
             \<and> (c = CHR ''D'' \<or> c = CHR ''d'')
          then (let sep = (case rest of x # r \<Rightarrow> if is_sep x then [x] else [] | [] \<Rightarrow> []);
                    ds = takeWhile is_digit (drop (length sep) rest)
                in if ds = [] then None else Some (a # b # c # sep @ ds))
          else None
      | _ \<Rightarrow> None)"

fun re_search :: "string \<Rightarrow> string option" where
  \<comment> \<open>group 1 of the first match, or \<open>None\<close>\<close>
  "re_search [] = None"
| "re_search (c # cs) =
     (case match_here (c # cs) of Some m \<Rightarrow> Some m | None \<Rightarrow> re_search cs)"

section \<open>Data model\<close>

datatype message =
    SystemMessage string
  | HumanMessage string
  | AIMessage string
  | ToolMessage string string string  \<comment> \<open>content, name, tool\_call\_id\<close>

fun content :: "message \<Rightarrow> string" where
  "content (SystemMessage c) = c"
| "content (HumanMessage c) = c"
| "content (AIMessage c) = c"
| "content (ToolMessage c n i) = c"

text \<open>schema.py, \<open>AgentState\<close>. A key that is absent reads as \<open>None\<close> with \<open>state.get\<close>.\<close>

record agent_state =
  messages :: "message list"
  ticket_text :: "string option"
  issue_type :: "string option"
  order_id :: "string option"
  evidence :: "string option"

text \<open>schema.py, \<open>ClassificationOutput\<close>; the issue type is carried by its string value.\<close>

record classification_output =
  out_issue_type :: string
  out_order_id :: "string option"

datatype exn = Exception string

text \<open>
  A JSON value as Python holds it: a string, \<open>None\<close>, or any other value (number, boolean,
  list, object) of which the model only needs the rendering \<open>str(v)\<close>.
\<close>

datatype 'v jvalue = JStr string | JNull | JOther 'v

type_synonym 'v pydict = "(string \<times> 'v jvalue) list"

datatype 'a file_read = FileNotFound | ReadError exn | Content 'a

text \<open>
  What the pipeline takes from outside: the two data files as \<open>load_json\<close> finds them, the
  order list the server module loaded, \<open>str\<close> and \<open>json.dumps\<close> on JSON values, the
  language model in structured mode (the decoded \<open>ClassificationOutput\<close>, or the exception
  raised by the call or by the decoding of its output) and in text mode, the date and a
  fresh uuid.
\<close>

record 'v env =
  orders_json :: "'v pydict list file_read"
  replies_json :: "'v pydict list file_read"
  ORDERS :: "'v pydict list"
  str_other :: "'v \<Rightarrow> string"
  json_dumps :: "'v pydict \<Rightarrow> string"
  structured_llm :: "message list \<Rightarrow> exn + classification_output"
  model_invoke :: "message list \<Rightarrow> exn + string"
  utcnow_date :: string
  uuid4 :: string

definition py_str :: "('v \<Rightarrow> string) \<Rightarrow> 'v jvalue \<Rightarrow> string" where
  \<comment> \<open>\<open>str(v)\<close>\<close>
  "py_str f v = (case v of JStr s \<Rightarrow> s | JNull \<Rightarrow> ''None'' | JOther x \<Rightarrow> f x)"

definition dict_get :: "'v pydict \<Rightarrow> string \<Rightarrow> 'v jvalue \<Rightarrow> 'v jvalue" where
  \<comment> \<open>\<open>d.get(k, default)\<close>\<close>
  "dict_get d k dflt = (case map_of d k of None \<Rightarrow> dflt | Some v \<Rightarrow> v)"

section \<open>utils.py\<close>

definition load_json :: "'a list file_read \<Rightarrow> exn + 'a list" where
  \<comment> \<open>a missing file is an empty list; any other failure of the read propagates\<close>
  "load_json f = (case f of FileNotFound \<Rightarrow> Inr [] | ReadError e \<Rightarrow> Inl e | Content xs \<Rightarrow> Inr xs)"

definition db_id :: "'v env \<Rightarrow> 'v pydict \<Rightarrow> string" where
  \<comment> \<open>line 25\<close>
  "db_id env order =
     normalize_lookup (py_str (str_other env) (dict_get order ''order_id'' (JStr [])))"

definition lookup_order :: "'v env \<Rightarrow> string option \<Rightarrow> exn + 'v pydict option" where
  "lookup_order env oid =
     (case oid of
        None \<Rightarrow> Inr None
      | Some s \<Rightarrow>
          if s = [] then Inr None
          else (case load_json (orders_json env) of
                  Inl e \<Rightarrow> Inl e
                | Inr db \<Rightarrow>
                    (let clean_id = normalize_lookup s
                     in Inr (find (\<lambda>order. db_id env order = clean_id) db))))"

fun first_template :: "'v pydict list \<Rightarrow> string option \<Rightarrow> exn + 'v jvalue" where
  \<comment> \<open>the loop of \<open>get_reply_template\<close>; \<open>item["template"]\<close> raises \<open>KeyError\<close> on a
      missing key\<close>
  "first_template [] it =
     Inr (JStr ''Hi {{customer_name}}, regarding order {{order_id}}: We are looking into your issue.'')"
| "first_template (item # items) it =
     (if (case (map_of item ''issue_type'', it) of
            (Some (JStr s), Some t) \<Rightarrow> s = t
          | (Some JNull, None) \<Rightarrow> True
          | (None, None) \<Rightarrow> True
          | _ \<Rightarrow> False)
      then (case map_of item ''template'' of
              None \<Rightarrow> Inl (Exception ''KeyError: template'')
            | Some t \<Rightarrow> Inr t)
      else first_template items it)"

definition get_reply_template :: "'v env \<Rightarrow> string option \<Rightarrow> exn + 'v jvalue" where
  "get_reply_template env it =
     (case load_json (replies_json env) of
        Inl e \<Rightarrow> Inl e
      | Inr replies \<Rightarrow> first_template replies it)"

section \<open>graph.py\<close>

definition not_found :: "string \<Rightarrow> string" where
  "not_found oid = ''Order ID '' @ oid @ '' not found in the database.''"

definition fetch_order_tool :: "'v env \<Rightarrow> string \<Rightarrow> exn + string" where
  "fetch_order_tool env oid =
     (case lookup_order env (Some oid) of
        Inl e \<Rightarrow> Inl e
      | Inr order \<Rightarrow>
          (case order of
             Some d \<Rightarrow> if d \<noteq> [] then Inr (json_dumps env d) else Inr (not_found oid)
           | None \<Rightarrow> Inr (not_found oid)))"

definition PLACEHOLDERS :: "string list" where
  "PLACEHOLDERS = [''N/A'', ''NONE'', ''NULL'', ''NOT PROVIDED'', ''UNKNOWN'']"

definition is_placeholder :: "string \<Rightarrow> bool" where
  \<comment> \<open>lines 62 and 63: \<open>any(x in oid.strip().upper() for x in [...])\<close>\<close>
  "is_placeholder oid =
     (let clean_oid = upper (strip oid) in list_ex (\<lambda>x. isin x clean_oid) PLACEHOLDERS)"

definition resolve_order_id :: "string option \<Rightarrow> string option \<Rightarrow> string option \<Rightarrow> string option" where
  \<comment> \<open>lines 60 to 72 of \<open>classify_node\<close>: the id reported by the classifier, the text to
      analyze, the id already in the state\<close>
  "resolve_order_id reported text state_oid =
     (let oid = reported;
          oid = (if truthy oid then (if is_placeholder (the oid) then None else oid) else oid);
          oid = (if \<not> truthy oid \<and> truthy text
                 then (case re_search (the text) of
                         Some m \<Rightarrow> Some (normalize_text m)
                       | None \<Rightarrow> oid)
                 else oid);
          oid = (if \<not> truthy oid then state_oid else oid)
      in oid)"


definition text_id :: "string option \<Rightarrow> string option" where
  "text_id text =
     (case text of
        None \<Rightarrow> None
      | Some t \<Rightarrow> if t = [] then None else map_option normalize_text (re_search t))"

fun last_human :: "message list \<Rightarrow> string option" where
  \<comment> \<open>the content of the first \<open>HumanMessage\<close> of \<open>reversed(messages)\<close>\<close>
  "last_human [] = None"
| "last_human (m # ms) =
     (case last_human ms of
        Some c \<Rightarrow> Some c
      | None \<Rightarrow> (case m of HumanMessage c \<Rightarrow> Some c | _ \<Rightarrow> None))"

definition text_to_analyze :: "agent_state \<Rightarrow> string option" where
  "text_to_analyze st =
     (let t = ticket_text st
      in if \<not> truthy t \<and> messages st \<noteq> []
         then (case last_human (messages st) of Some c \<Rightarrow> Some c | None \<Rightarrow> t)
         else t)"

definition nl :: string where "nl = [CHR 0x0A]"
definition sq :: string where "sq = [CHR 0x27]"
definition dq :: string where "dq = [CHR 0x22]"

definition system_prompt :: string where
  "system_prompt = concat [
      nl, ''    You are an expert Customer Support Triage Agent.'', nl,
      ''    Your job is to classify the user'', sq,
      ''s issue into exactly one of these categories:'', nl, nl, ''    CLASSIFICATION RULES:'',
      nl, ''    - '', sq, ''defective_product'', sq,
      '': The item arrived but is NOT WORKING, won'', sq,
      ''t turn on, is glitchy, or has a bad battery.'', nl, ''    - '', sq, ''damaged_item'',
      sq, '': The item arrived physically BROKEN, smashed, scratched, or crushed.'', nl,
      ''    - '', sq, ''missing_item'', sq,
      '': The order arrived but a specific item was NOT in the box.'', nl, ''    - '', sq,
      ''late_delivery'', sq,
      '': The order has not arrived yet, or the user is asking for shipping status.'', nl,
      ''    - '', sq, ''wrong_item'', sq,
      '': The user received a product they did not order.'', nl, ''    - '', sq,
      ''refund_request'', sq, '': The user explicitly asks for their money back.'', nl,
      ''    - '', sq, ''duplicate_charge'', sq,
      '': The user sees two charges for the same order.'', nl, ''    '', nl,
      ''    Extract the Order ID if present (e.g., ORD-123).'', nl, ''    '']"

text \<open>
  \<open>classify_node\<close> returns the update of the two keys \<open>issue_type\<close> and \<open>order_id\<close>. It has
  no handler: an exception of the structured call leaves the node as it is. The calls to
  the logger are not modelled.
\<close>

definition classify_node :: "'v env \<Rightarrow> agent_state \<Rightarrow> exn + (string \<times> string option)" where
  "classify_node env st =
     (case structured_llm env (SystemMessage system_prompt # messages st) of
        Inl e \<Rightarrow> Inl e
      | Inr response \<Rightarrow>
          Inr (out_issue_type response,
               resolve_order_id (out_order_id response) (text_to_analyze st) (order_id st)))"

definition fetch_order_node :: "'v env \<Rightarrow> agent_state \<Rightarrow> exn + message list" where
  "fetch_order_node env st =
     (let oid = order_id st
      in case fetch_order_tool env (py_str_opt oid) of
           Inl e \<Rightarrow> Inl e
         | Inr tool_result \<Rightarrow>
             Inr [ToolMessage tool_result ''fetch_order'' (''call_'' @ py_str_opt oid)])"

definition ask_prompt :: "string option \<Rightarrow> string \<Rightarrow> string \<Rightarrow> string" where
  "ask_prompt it user_input today = concat [
      nl, ''        System: You are a support agent. User has a '', sq, py_str_opt it, sq,
      '' issue but NO Order ID.'', nl, ''        Context: '', user_input, nl,
      ''        Task: Ask for the Order ID politely. Do not promise a solution yet.'', nl,
      ''        Today'', sq, ''s Date: '', today, nl, ''        '']"

definition reply_prompt :: "string option \<Rightarrow> string option \<Rightarrow> string \<Rightarrow> string \<Rightarrow> string" where
  "reply_prompt it oid template today = concat [
      nl, ''        You are a helpful Customer Support Agent.'', nl, ''        '', nl,
      ''        CONTEXT:'', nl, ''        - Issue Type: '', py_str_opt it, nl,
      ''        - Order ID: '', (if truthy oid then the oid else ''Not Provided''), nl,
      ''        - Standard Company Response: '', dq, template, dq, nl, ''        '', nl,
      ''        INSTRUCTIONS:'', nl,
      ''        1. If the user is reporting the issue for the first time, use the '', dq,
      ''Standard Company Response'', dq, '' (fill in placeholders).'', nl,
      ''        2. If the user is asking a FOLLOW-UP question (e.g., '', dq, ''When?'', dq,
      '', '', dq, ''How long?'', dq, '', '', dq, ''Is it free?'', dq,
      ''), ANSWER the question directly. Do NOT repeat the standard response.'', nl,
      ''        3. If the user asks for a refund timeline, say '', dq,
      ''within 5 business days'', dq, ''.'', nl,
      ''        4. If the user asks about replacement, say '', dq,
      ''A replacement will be arranged under warranty.'', dq, nl,
      ''        5. If the user asks about returning a wrong item, say something like: '', dq,
      ''We will send a prepaid return label and ship the correct item.'', dq, nl,
      ''        6. If the Order ID was found, MENTION the item name to confirm you found the right order.'',
      nl, ''        Today'', sq, ''s Date: '', today, nl, ''        '']"

definition draft_reply_node :: "'v env \<Rightarrow> agent_state \<Rightarrow> exn + message list" where
  "draft_reply_node env st =
     (let it = issue_type st;
          oid = order_id st;
          user_input = (case last_human (messages st) of Some c \<Rightarrow> c | None \<Rightarrow> ''Unknown'');
          today = utcnow_date env;
          prompt =
            (if \<not> truthy oid then Inr (ask_prompt it user_input today)
             else (case (if truthy oid then get_reply_template env it else Inr (JStr ''N/A'')) of
                     Inl e \<Rightarrow> Inl e
                   | Inr template \<Rightarrow>
                       Inr (reply_prompt it oid (py_str (str_other env) template) today)))
      in case prompt of
           Inl e \<Rightarrow> Inl e
         | Inr p \<Rightarrow>
             (case model_invoke env (SystemMessage p # messages st) of
                Inl e \<Rightarrow> Inl e
              | Inr response \<Rightarrow> Inr [AIMessage response]))"

subsection \<open>Routing and the graph\<close>

datatype node = START | classify | fetch_order | draft_reply | END

definition route_ticket :: "agent_state \<Rightarrow> node" where
  "route_ticket st = (if truthy (order_id st) then fetch_order else draft_reply)"

fun next_node :: "node \<Rightarrow> agent_state \<Rightarrow> node" where
  \<comment> \<open>the edges added to \<open>builder\<close>, lines 158 to 167\<close>
  "next_node START st = classify"
| "next_node classify st = route_ticket st"
| "next_node fetch_order st = draft_reply"
| "next_node draft_reply st = END"
| "next_node END st = END"

text \<open>
  One node of the graph runs on the state and its update is merged: the \<open>messages\<close> channel
  appends (\<open>add_messages\<close>), the other keys are overwritten.
\<close>

fun run_node :: "'v env \<Rightarrow> node \<Rightarrow> agent_state \<Rightarrow> exn + agent_state" where
  "run_node env START st = Inr st"
| "run_node env classify st =
     (case classify_node env st of
        Inl e \<Rightarrow> Inl e
      | Inr (it, oid) \<Rightarrow> Inr (st\<lparr>issue_type := Some it, order_id := oid\<rparr>))"
| "run_node env fetch_order st =
     (case fetch_order_node env st of
        Inl e \<Rightarrow> Inl e
      | Inr ms \<Rightarrow> Inr (st\<lparr>messages := messages st @ ms\<rparr>))"
| "run_node env draft_reply st =
     (case draft_reply_node env st of
        Inl e \<Rightarrow> Inl e
      | Inr ms \<Rightarrow> Inr (st\<lparr>messages := messages st @ ms\<rparr>))"
| "run_node env END st = Inr st"

fun rank :: "node \<Rightarrow> nat" where
  "rank START = 4"
| "rank classify = 3"
| "rank fetch_order = 2"
| "rank draft_reply = 1"
| "rank END = 0"

text \<open>
  The run of the compiled graph from a node: the final state, or the exception that ended
  the run, together with the nodes that were started, in order.
\<close>

function graph_run :: "'v env \<Rightarrow> node \<Rightarrow> agent_state \<Rightarrow> node list \<Rightarrow> (exn + agent_state) \<times> node list" where
  "graph_run env n st tr =
     (if n = END then (Inr st, tr)
      else (case run_node env n st of
              Inl e \<Rightarrow> (Inl e, tr @ [n])
            | Inr st' \<Rightarrow> graph_run env (next_node n st') st' (tr @ [n])))"
  by pat_completeness auto
termination
proof (relation "measure (\<lambda>(env, n, st, tr). rank n)")
  show "wf (measure (\<lambda>(env :: 'v env, n, st :: agent_state, tr :: node list). rank n))"
    by simp
next
  fix env :: "'v env" and n st tr x2
  assume "n \<noteq> END"
  then show "((env, next_node n x2, x2, tr @ [n]), (env, n, st, tr))
      \<in> measure (\<lambda>(env, n, st, tr). rank n)"
    by (cases n) (simp_all add: route_ticket_def)
qed

text \<open>
  \<open>graph = builder.compile()\<close> has no checkpointer, so \<open>graph.ainvoke(inputs, config)\<close>
  starts from the inputs alone, at the node that follows \<open>START\<close>: the thread id of
  \<open>config\<close> selects no stored state and nothing is stored under it at the end.
\<close>

definition graph_invoke :: "'v env \<Rightarrow> agent_state \<Rightarrow> string \<Rightarrow> (exn + agent_state) \<times> node list" where
  "graph_invoke env inputs thread_id = graph_run env (next_node START inputs) inputs []"

section \<open>main.py\<close>

record triage_input =
  body_ticket_text :: string
  body_order_id :: "string option"
  body_conversation_id :: "string option"

record 'v triage_output =
  res_order_id :: "string option"
  res_issue_type :: string
  res_order :: "'v pydict option"
  res_reply_text :: string

datatype http_error = HTTPException nat string | Unhandled exn

definition thread_id_of :: "'v env \<Rightarrow> triage_input \<Rightarrow> string" where
  \<comment> \<open>lines 98 to 108\<close>
  "thread_id_of env body =
     (let explicit_oid = body_order_id body;
          thread_id = body_conversation_id body;
          thread_id = (if \<not> truthy thread_id \<and> truthy explicit_oid then explicit_oid else thread_id);
          thread_id = (if \<not> truthy thread_id
                       then (case re_search (body_ticket_text body) of
                               Some m \<Rightarrow> Some (normalize_text m)
                             | None \<Rightarrow> thread_id)
                       else thread_id)
      in if \<not> truthy thread_id then uuid4 env else the thread_id)"

definition graph_inputs :: "triage_input \<Rightarrow> agent_state" where
  \<comment> \<open>lines 111 to 116; \<open>("user", text)\<close> is read as a \<open>HumanMessage\<close>\<close>
  "graph_inputs body =
     \<lparr>messages = [HumanMessage (body_ticket_text body)],
      ticket_text = Some (body_ticket_text body),
      issue_type = None,
      order_id = (if truthy (body_order_id body) then body_order_id body else None),
      evidence = None\<rparr>"

fun hydrate :: "'v pydict list \<Rightarrow> string \<Rightarrow> exn + 'v pydict option" where
  \<comment> \<open>\<open>next((o for o in ORDERS if o["order_id"] == agent_oid), None)\<close>\<close>
  "hydrate [] oid = Inr None"
| "hydrate (order # orders) oid =
     (case map_of order ''order_id'' of
        None \<Rightarrow> Inl (Exception ''KeyError: order_id'')
      | Some v \<Rightarrow> if v = JStr oid then Inr (Some order) else hydrate orders oid)"

definition triage_invoke :: "'v env \<Rightarrow> triage_input \<Rightarrow> http_error + 'v triage_output" where
  "triage_invoke env body =
     (let thread_id = thread_id_of env body;
          inputs = graph_inputs body
      in case fst (graph_invoke env inputs thread_id) of
           Inl (Exception msg) \<Rightarrow> Inl (HTTPException 500 (''Agent Error: '' @ msg))
         | Inr final_state \<Rightarrow>
             (case messages final_state of
                [] \<Rightarrow> Inl (Unhandled (Exception ''IndexError''))
              | m # ms \<Rightarrow>
                  (let reply_text = content (last (m # ms));
                       agent_issue = (case issue_type final_state of None \<Rightarrow> ''other'' | Some t \<Rightarrow> t);
                       agent_oid = order_id final_state
                   in case (if truthy agent_oid then hydrate (ORDERS env) (the agent_oid) else Inr None) of
                        Inl e \<Rightarrow> Inl (Unhandled e)
                      | Inr full_order \<Rightarrow>
                          Inr \<lparr>res_order_id = agent_oid, res_issue_type = agent_issue,
                               res_order = full_order, res_reply_text = reply_text\<rparr>)))"

section \<open>A concrete environment\<close>

text \<open>
  One order in the repository, no reply templates, a classifier that answers
  \<open>damaged_item\<close> and reports no order id, and a drafting model with a fixed answer.
\<close>

definition lamp_order :: "unit pydict" where
  "lamp_order = [(''order_id'', JStr ''ORD-4521''), (''item'', JStr ''Desk lamp'')]"

definition demo_env :: "unit env" where
  "demo_env =
     \<lparr>orders_json = Content [lamp_order],
      replies_json = FileNotFound,
      ORDERS = [lamp_order],
      str_other = (\<lambda>u. ''()''),
      json_dumps = (\<lambda>d. concat (map (\<lambda>(k, v). k @ ''='' @ py_str (\<lambda>u. ''()'') v @ '';'') d)),
      structured_llm = (\<lambda>ms. Inr \<lparr>out_issue_type = ''damaged_item'', out_order_id = None\<rparr>),
      model_invoke = (\<lambda>ms. Inr ''We are sorry to hear that.''),
      utcnow_date = ''2025-01-01'',
      uuid4 = ''3f2b8c1e-0000-4000-8000-000000000000''\<rparr>"

definition undecodable_env :: "unit env" where
  \<comment> \<open>the same, with a classifier whose output cannot be decoded\<close>
  "undecodable_env =
     demo_env\<lparr>structured_llm := (\<lambda>ms. Inl (Exception ''OutputParserException''))\<rparr>"

definition turn1 :: triage_input where
  "turn1 = \<lparr>body_ticket_text = ''My order ORD-4521 arrived broken'', body_order_id = None,
            body_conversation_id = Some ''thread-1''\<rparr>"

definition turn2 :: triage_input where
  "turn2 = \<lparr>body_ticket_text = ''How long will that take?'', body_order_id = None,
            body_conversation_id = Some ''thread-1''\<rparr>"




declare graph_run.simps [simp del]

section \<open>Normalization\<close>

lemma of_char_upper_char:
  "(of_char (upper_char c) :: nat) =
     (if 97 \<le> (of_char c :: nat) \<and> (of_char c :: nat) \<le> 122 then of_char c - 32 else of_char c)"
proof (cases "97 \<le> (of_char c :: nat) \<and> (of_char c :: nat) \<le> 122")
  case True
  have "(of_char c :: nat) - 32 < 256"
    using nat_of_char_less_256 [of c] by arith
  then have "((of_char c :: nat) - 32) mod 256 = of_char c - 32"
    by (rule mod_less)
  with True show ?thesis
    by (simp add: upper_char_def Let_def)
next
  case False
  then have "upper_char c = c"
    by (auto simp add: upper_char_def Let_def)
  with False show ?thesis
    by auto
qed

lemma upper_char_idem: "upper_char (upper_char c) = upper_char c"
proof (rule of_char_eqI [where ?'a = nat])
  show "(of_char (upper_char (upper_char c)) :: nat) = of_char (upper_char c)"
    by (simp add: of_char_upper_char) arith
qed

lemma upper_char_dash: "upper_char c = CHR ''-'' \<longleftrightarrow> c = CHR ''-''"
proof -
  have "upper_char c = CHR ''-'' \<longleftrightarrow> (of_char (upper_char c) :: nat) = of_char CHR ''-''"
    by (simp only: of_char_eq_iff)
  also have "\<dots> \<longleftrightarrow> (of_char c :: nat) = of_char CHR ''-''"
    by (simp add: of_char_upper_char) arith
  also have "\<dots> \<longleftrightarrow> c = CHR ''-''"
    by (simp only: of_char_eq_iff)
  finally show ?thesis .
qed

lemma upper_char_space: "upper_char c = CHR '' '' \<longleftrightarrow> c = CHR '' ''"
proof -
  have "upper_char c = CHR '' '' \<longleftrightarrow> (of_char (upper_char c) :: nat) = of_char CHR '' ''"
    by (simp only: of_char_eq_iff)
  also have "\<dots> \<longleftrightarrow> (of_char c :: nat) = of_char CHR '' ''"
    by (simp add: of_char_upper_char) arith
  also have "\<dots> \<longleftrightarrow> c = CHR '' ''"
    by (simp only: of_char_eq_iff)
  finally show ?thesis .
qed

lemma upper_idem: "upper (upper s) = upper s"
  by (simp add: upper_def upper_char_idem)

lemma upper_remove_dash: "upper (remove_char CHR ''-'' s) = remove_char CHR ''-'' (upper s)"
  by (induction s) (simp_all add: upper_def remove_char_def upper_char_dash)

lemma upper_remove_space: "upper (remove_char CHR '' '' s) = remove_char CHR '' '' (upper s)"
  by (induction s) (simp_all add: upper_def remove_char_def upper_char_space)

lemma remove_char_commute: "remove_char a (remove_char b s) = remove_char b (remove_char a s)"
  by (induction s) (simp_all add: remove_char_def)

lemma remove_char_idem: "remove_char a (remove_char a s) = remove_char a s"
  by (simp add: remove_char_def)

lemma normalize_lookup_eq: "normalize_lookup s = normalize_text s"
  by (simp add: normalize_lookup_def normalize_text_def upper_remove_dash upper_remove_space
      remove_char_commute [of "CHR ''-''" "CHR '' ''"])

lemma normalize_text_idem: "normalize_text (normalize_text s) = normalize_text s"
proof -
  have "normalize_text (normalize_text s)
      = remove_char CHR ''-'' (remove_char CHR '' '' (remove_char CHR ''-''
          (remove_char CHR '' '' (upper (upper s)))))"
    by (simp add: normalize_text_def upper_remove_dash upper_remove_space)
  also have "\<dots> = remove_char CHR ''-'' (remove_char CHR ''-'' (remove_char CHR '' ''
          (remove_char CHR '' '' (upper s))))"
    by (simp add: upper_idem remove_char_commute [of "CHR '' ''" "CHR ''-''"])
  also have "\<dots> = normalize_text s"
    by (simp add: remove_char_idem normalize_text_def)
  finally show ?thesis .
qed

lemma normalize_lookup_idem: "normalize_lookup (normalize_lookup s) = normalize_lookup s"
  by (simp add: normalize_lookup_eq normalize_text_idem)

text \<open>
  C7. Normalization is idempotent and insensitive to case and format: for every string,
  normalizing twice equals normalizing once, for the normalization of the resolver and
  for that of the lookup, and both send \<open>ORD-123\<close> and \<open>ord 123\<close> to \<open>ORD123\<close>.
\<close>

theorem normalize_idempotent_insensitive:
  "normalize_text (normalize_text x) = normalize_text x
   \<and> normalize_lookup (normalize_lookup x) = normalize_lookup x
   \<and> normalize_lookup x = normalize_text x
   \<and> normalize_text ''ORD-123'' = ''ORD123'' \<and> normalize_text ''ord 123'' = ''ORD123''
   \<and> normalize_lookup ''ORD-123'' = ''ORD123'' \<and> normalize_lookup ''ord 123'' = ''ORD123''"
proof -
  have a: "normalize_text ''ORD-123'' = ''ORD123''" by code_simp
  have b: "normalize_text ''ord 123'' = ''ORD123''" by code_simp
  show ?thesis
    by (simp only: normalize_text_idem normalize_lookup_idem normalize_lookup_eq a b simp_thms)
qed

section \<open>The order repository\<close>

text \<open>
  C10. \<open>lookup_order\<close> on a degenerate id: for \<open>None\<close> and for the empty string it returns
  \<open>None\<close>, whatever the repository file is, also one that cannot be read: the file is not
  opened and no record is matched.
\<close>

theorem lookup_order_degenerate:
  "lookup_order env None = Inr None \<and> lookup_order env (Some []) = Inr None"
  by (simp add: lookup_order_def)

lemma find_first:
  "r \<in> set db \<Longrightarrow> P r \<Longrightarrow>
     \<exists>r'. find P db = Some r' \<and> r' \<in> set db \<and> P r'
       \<and> ((\<forall>x \<in> set (takeWhile (\<lambda>x. x \<noteq> r) db). \<not> P x) \<longrightarrow> r' = r)"
  by (induction db) auto

text \<open>
  C8. The comparison of the lookup is insensitive to formatting: when the queried id is
  not empty and a stored record has an id that agrees with it after the removal of dashes
  and spaces and upper-casing, \<open>lookup_order\<close> finds a record with that normalized id,
  the first one in the repository, which is the given record when no earlier record
  normalizes to the same id.
\<close>

theorem lookup_order_normalization_insensitive:
  assumes "oid \<noteq> []" and "orders_json env = Content db" and "r \<in> set db"
    and "normalize_lookup (py_str (str_other env) (dict_get r ''order_id'' (JStr [])))
           = normalize_lookup oid"
  shows "\<exists>r'. lookup_order env (Some oid) = Inr (Some r') \<and> r' \<in> set db
           \<and> db_id env r' = normalize_lookup oid
           \<and> ((\<forall>x \<in> set (takeWhile (\<lambda>x. x \<noteq> r) db). db_id env x \<noteq> normalize_lookup oid)
                \<longrightarrow> r' = r)"
proof -
  have "db_id env r = normalize_lookup oid"
    using assms(4) by (simp add: db_id_def)
  from find_first [of r db "\<lambda>x. db_id env x = normalize_lookup oid", OF assms(3) this]
  show ?thesis
    using assms(1,2) by (simp add: lookup_order_def load_json_def)
qed

text \<open>
  The stored id \<open>ORD-4521\<close> is found by the query \<open>ord 4521\<close>.
\<close>

theorem lookup_order_normalization_insensitive_witness:
  "''ord 4521'' \<noteq> [] \<and> orders_json demo_env = Content [lamp_order]
   \<and> lamp_order \<in> set [lamp_order]
   \<and> normalize_lookup (py_str (str_other demo_env) (dict_get lamp_order ''order_id'' (JStr [])))
       = normalize_lookup ''ord 4521''
   \<and> lookup_order demo_env (Some ''ord 4521'') = Inr (Some lamp_order)"
proof -
  have h1: "''ord 4521'' \<noteq> []" by simp
  have h2: "orders_json demo_env = Content [lamp_order]" by (simp add: demo_env_def)
  have h3: "lamp_order \<in> set [lamp_order]" by simp
  have h4: "normalize_lookup (py_str (str_other demo_env)
             (dict_get lamp_order ''order_id'' (JStr []))) = normalize_lookup ''ord 4521''"
    by code_simp
  from lookup_order_normalization_insensitive [OF h1 h2 h3 h4]
  have "lookup_order demo_env (Some ''ord 4521'') = Inr (Some lamp_order)"
    by auto
  with h1 h2 h3 h4 show ?thesis by blast
qed



section \<open>The resolver\<close>












lemma text_id_normalized: "text_id tx = Some i \<Longrightarrow> normalize_text i = i"
  by (cases tx) (auto simp add: text_id_def normalize_text_idem split: if_splits)







text \<open>
  C3. The output of the resolver is not always normalized: the candidate \<open>ORD-4521\<close> of
  the classifier is returned with its dash, and the id \<open>ord 4521\<close> of the state is
  returned as it is; only the id found in the text is normalized.
\<close>

theorem resolver_output_not_normalized:
  "resolve_order_id (Some ''ORD-4521'') (Some ''My order ORD-4521 arrived broken'') None
     = Some ''ORD-4521''
   \<and> normalize_text ''ORD-4521'' = ''ORD4521''
   \<and> resolve_order_id None (Some ''How long will that take?'') (Some ''ord 4521'')
     = Some ''ord 4521''
   \<and> normalize_text ''ord 4521'' = ''ORD4521''"
  by code_simp

section \<open>The graph\<close>




lemma graph_run_classify:
  "graph_run env classify st tr =
     (case classify_node env st of
        Inl e \<Rightarrow> (Inl e, tr @ [classify])
      | Inr (it, oid) \<Rightarrow>
          graph_run env (if truthy oid then fetch_order else draft_reply)
            (st\<lparr>issue_type := Some it, order_id := oid\<rparr>) (tr @ [classify]))"
  by (simp add: graph_run.simps [of env classify] route_ticket_def split: sum.splits prod.splits)





text \<open>
  C4, as the code has it. A classification result that cannot be decoded is an exception
  of the structured call. \<open>classify_node\<close> has no handler, so the run ends in the
  \<open>classify\<close> node with that exception, neither routing nor drafting runs, and the
  endpoint answers with status 500. When the result is decoded, the issue type of the
  turn is the one it carries: \<open>other\<close> is an issue type only when the classifier returns
  it.
\<close>

theorem undecodable_classification_fails_turn:
  "(structured_llm env (SystemMessage system_prompt # messages st) = Inl e \<longrightarrow>
      classify_node env st = Inl e \<and> graph_run env classify st tr = (Inl e, tr @ [classify]))
   \<and> (structured_llm env (SystemMessage system_prompt # messages (graph_inputs body))
        = Inl (Exception msg) \<longrightarrow>
      triage_invoke env body = Inl (HTTPException 500 (''Agent Error: '' @ msg)))
   \<and> (structured_llm env (SystemMessage system_prompt # messages st) = Inr r \<longrightarrow>
      (\<exists>oid. classify_node env st = Inr (out_issue_type r, oid)))"
  by (simp add: classify_node_def graph_run_classify triage_invoke_def graph_invoke_def Let_def)

theorem undecodable_classification_fails_turn_witness:
  "structured_llm undecodable_env (SystemMessage system_prompt # messages (graph_inputs turn1))
     = Inl (Exception ''OutputParserException'')
   \<and> classify_node undecodable_env (graph_inputs turn1) = Inl (Exception ''OutputParserException'')
   \<and> triage_invoke undecodable_env turn1
       = Inl (HTTPException 500 ''Agent Error: OutputParserException'')
   \<and> structured_llm demo_env (SystemMessage system_prompt # messages (graph_inputs turn1))
       = Inr \<lparr>out_issue_type = ''damaged_item'', out_order_id = None\<rparr>
   \<and> (\<exists>oid. classify_node demo_env (graph_inputs turn1) = Inr (''damaged_item'', oid))"
proof -
  have a: "structured_llm undecodable_env
             (SystemMessage system_prompt # messages (graph_inputs turn1))
           = Inl (Exception ''OutputParserException'')"
    by (simp add: undecodable_env_def)
  have b: "structured_llm demo_env (SystemMessage system_prompt # messages (graph_inputs turn1))
       = Inr \<lparr>out_issue_type = ''damaged_item'', out_order_id = None\<rparr>"
    by (simp add: demo_env_def)
  show ?thesis
    using undecodable_classification_fails_turn
        [of undecodable_env "graph_inputs turn1" "Exception ''OutputParserException''" "[]"
          turn1 "''OutputParserException''"]
      undecodable_classification_fails_turn
        [of demo_env "graph_inputs turn1" _ _ _ _
          "\<lparr>out_issue_type = ''damaged_item'', out_order_id = None\<rparr>"]
      a b
    by simp
qed

text \<open>
  C4, as stated, fails: with a classification output that cannot be decoded the turn
  fails with status 500, and the run stops in \<open>classify\<close>.
\<close>

theorem undecodable_classification_counterexample:
  "triage_invoke undecodable_env turn1
     = Inl (HTTPException 500 ''Agent Error: OutputParserException'')
   \<and> graph_invoke undecodable_env (graph_inputs turn1) ''thread-1''
     = (Inl (Exception ''OutputParserException''), [classify])"
  by code_simp

section \<open>Sessions\<close>

text \<open>
  C1. Two turns with the same thread id: the first resolves \<open>ORD4521\<close> from its text; the
  second, whose classifier reports no id and whose text has no id pattern, resolves no id.
  Nothing is carried from one call of \<open>triage_invoke\<close> to the next.
\<close>

theorem session_continuity_broken:
  "thread_id_of demo_env turn1 = ''thread-1'' \<and> thread_id_of demo_env turn2 = ''thread-1''
   \<and> re_search (body_ticket_text turn2) = None
   \<and> map_sum id res_order_id (triage_invoke demo_env turn1) = Inr (Some ''ORD4521'')
   \<and> map_sum id res_order_id (triage_invoke demo_env turn2) = Inr None"
  by code_simp

end
